theory Spec2Isabelle
  imports Main "HOL-Library.Multiset" "HOL-Library.Product_Lexorder"
begin

section \<open>Boost.Geometry overlay: following a linestring through a polygon\<close>

text \<open>
  The development embeds the class template \<open>follow\<close> of
  \<^verbatim>\<open>boost/geometry/algorithms/detail/overlay/follow.hpp\<close>: the comparator
  \<open>sort_on_segment\<close>, the predicates \<open>is_entering\<close>, \<open>is_leaving\<close>,
  \<open>is_staying_inside\<close>, \<open>was_entered\<close>, and the member \<open>apply\<close> with its loop over
  the sorted turns and its final flush.

  The template parameters become type variables: \<open>'p\<close> is the point type of the
  linestring, \<open>'g\<close> the polygon type, \<open>'d\<close> the type of the enriched distance, which
  is compared with \<open><\<close> only and is taken to be linearly ordered (finite distances).
  A linestring and an output piece are lists of points.
\<close>

subsection \<open>Data of the turn records\<close>

text \<open>
  Modelled from the spec: the enumerations \<open>operation_type\<close> and \<open>method_type\<close> are
  declared in \<^verbatim>\<open>turn_info.hpp\<close>, which is not among the sources. The spec lists the
  operations intersection, union, continue, blocked, none and the methods crosses,
  collinear, equal, touch, touch_interior, none "and others"; \<open>method_disjoint\<close> and
  \<open>method_error\<close> stand for the others. The code under study only compares against
  \<open>operation_union\<close>, \<open>operation_intersection\<close>, \<open>operation_continue\<close>,
  \<open>operation_blocked\<close>, \<open>method_crosses\<close>, \<open>method_collinear\<close> and \<open>method_equal\<close>.
\<close>

datatype operation_type =
    operation_none
  | operation_union
  | operation_intersection
  | operation_blocked
  | operation_continue

datatype method_type =
    method_none
  | method_disjoint
  | method_crosses
  | method_touch
  | method_touch_interior
  | method_collinear
  | method_equal
  | method_error

text \<open>
  Modelled from the spec: \<open>segment_identifier\<close> is declared outside the sources. The
  spec gives it as the tuple (source, multi_index, ring_index, segment_index), ordered
  lexicographically; equality is equality of all four fields.
\<close>

record segment_identifier =
  source_index :: int
  multi_index :: int
  ring_index :: int
  segment_index :: int

definition seg_less :: "segment_identifier \<Rightarrow> segment_identifier \<Rightarrow> bool" where
  "seg_less a b =
     (if source_index a \<noteq> source_index b then source_index a < source_index b
      else if multi_index a \<noteq> multi_index b then multi_index a < multi_index b
      else if ring_index a \<noteq> ring_index b then ring_index a < ring_index b
      else segment_index a < segment_index b)"

record 'd enrichment_info =
  distance :: 'd

record 'd turn_operation =
  operation :: operation_type
  seg_id :: segment_identifier
  enriched :: "'d enrichment_info"

text \<open>
  A turn carries its point, its method (the field \<open>method\<close> of the code, named
  \<open>turn_method\<close> here) and the array \<open>operations\<close> of two operation
  records; \<open>operations[0]\<close>, the first component here, is the one on the linestring.
\<close>

record ('p, 'd) turn_info =
  point :: 'p
  turn_method :: method_type
  operations :: "'d turn_operation \<times> 'd turn_operation"

subsection \<open>The comparator and the sort\<close>

definition sort_on_segment :: "('p, 'd::linorder) turn_info \<Rightarrow> ('p, 'd) turn_info \<Rightarrow> bool" where
  "sort_on_segment left right =
     (let sl = seg_id (fst (operations left));
          sr = seg_id (fst (operations right))
      in if sl = sr
         then distance (enriched (fst (operations left)))
                < distance (enriched (fst (operations right)))
         else seg_less sl sr)"

text \<open>
  \<open>std::sort\<close> belongs to the C++ standard library. Its contract is all the code relies
  on: the range afterwards holds the same elements, and no element compares less than
  one that stands before it. The order among elements that the comparator does not
  separate is left open by that contract, so the sort is a relation between the list
  before and the list after. A library fixes one of the results the contract admits;
  the examples with tied turns below name the result of the GNU C++ library.
\<close>

definition std_sort :: "('a \<Rightarrow> 'a \<Rightarrow> bool) \<Rightarrow> 'a list \<Rightarrow> 'a list \<Rightarrow> bool" where
  "std_sort cmp xs ys = (mset ys = mset xs \<and> sorted_wrt (\<lambda>a b. \<not> cmp b a) ys)"

text \<open>The position of a turn along the linestring: segment identifier, then distance.\<close>

definition turn_key :: "('p, 'd) turn_info \<Rightarrow> (int \<times> int \<times> int \<times> int) \<times> 'd" where
  "turn_key t =
     (let s = seg_id (fst (operations t))
      in ((source_index s, multi_index s, ring_index s, segment_index s),
          distance (enriched (fst (operations t)))))"

subsection \<open>Helpers of the geometry library\<close>

text \<open>
  Modelled from the spec: \<open>append_no_duplicates\<close> is defined in
  \<^verbatim>\<open>append_no_duplicates.hpp\<close>, not among the sources. The spec: it appends the
  point unless it is equal to the last point of the piece.
\<close>

definition append_no_duplicates :: "'p list \<Rightarrow> 'p \<Rightarrow> 'p list" where
  "append_no_duplicates rng p =
     (if rng = [] \<or> last rng \<noteq> p then rng @ [p] else rng)"

text \<open>
  Modelled from the spec: \<open>copy_segments\<close> is defined in \<^verbatim>\<open>copy_segments.hpp\<close>,
  not among the sources. The spec: it appends to the piece the vertices of the
  linestring that lie strictly after the anchor \<open>seg_id\<close> up to and including the
  vertex with index \<open>to_index\<close>, each with duplicate suppression. The vertices after
  the anchor on segment \<open>i\<close> start at index \<open>i + 1\<close>.
\<close>

definition copy_segments :: "'p list \<Rightarrow> segment_identifier \<Rightarrow> int \<Rightarrow> 'p list \<Rightarrow> 'p list" where
  "copy_segments ls sid to_index current_output =
     foldl append_no_duplicates current_output
       (map (\<lambda>i. ls ! nat i)
          (filter (\<lambda>i. 0 \<le> i \<and> i < int (length ls)) [segment_index sid + 1 .. to_index]))"

subsection \<open>The predicates of the class\<close>

definition is_entering :: "('p, 'd) turn_info \<Rightarrow> 'd turn_operation \<Rightarrow> bool" where
  "is_entering turn op =
     (operation op = operation_intersection
      \<or> operation op = operation_continue
      \<or> operation op = operation_blocked)"

text \<open>
  \<open>within\<close> is the point-in-polygon predicate of the geometry library, a parameter
  here. It is applied to \<open>linestring[0]\<close>; the C++ read is defined only for a
  linestring with at least one point.
\<close>

definition is_leaving ::
  "('p \<Rightarrow> 'g \<Rightarrow> bool) \<Rightarrow> ('p, 'd) turn_info \<Rightarrow> 'd turn_operation \<Rightarrow> bool \<Rightarrow> bool
     \<Rightarrow> 'p list \<Rightarrow> 'g \<Rightarrow> bool" where
  "is_leaving within turn op entered first linestring polygon =
     (if operation op = operation_union
      then entered
           \<or> turn_method turn = method_crosses
           \<or> (first \<and> within (linestring ! 0) polygon)
      else False)"

definition is_staying_inside ::
  "('p \<Rightarrow> 'g \<Rightarrow> bool) \<Rightarrow> ('p, 'd) turn_info \<Rightarrow> 'd turn_operation \<Rightarrow> bool \<Rightarrow> bool
     \<Rightarrow> 'p list \<Rightarrow> 'g \<Rightarrow> bool" where
  "is_staying_inside within turn op entered first linestring polygon =
     (if turn_method turn = method_crosses then False
      else if is_entering turn op
      then entered \<or> (first \<and> within (linestring ! 0) polygon)
      else False)"

definition was_entered :: "('p, 'd) turn_info \<Rightarrow> bool \<Rightarrow> bool" where
  "was_entered turn first =
     (if first \<and> (turn_method turn = method_collinear \<or> turn_method turn = method_equal)
      then True else False)"

subsection \<open>The loop of \<open>apply\<close>\<close>

text \<open>
  The local variables of \<open>apply\<close> and the output written through the iterator \<open>out\<close>.
\<close>

record 'p scan_state =
  entered :: bool
  first :: bool
  current_segment_id :: segment_identifier
  current_piece :: "'p list"
  out :: "'p list list"

definition initial_state :: "'p scan_state" where
  "initial_state =
     \<lparr> entered = False, first = True,
       current_segment_id =
         \<lparr> source_index = 0, multi_index = - 1, ring_index = - 1, segment_index = - 1 \<rparr>,
       current_piece = [], out = [] \<rparr>"

text \<open>
  The pre-mark at the head of the loop body: \<open>entered\<close> after the test of
  \<open>was_entered\<close>.
\<close>

definition pre_mark :: "('p, 'd) turn_info \<Rightarrow> 'p scan_state \<Rightarrow> bool" where
  "pre_mark it st = (if was_entered it (first st) then True else entered st)"

text \<open>
  The if / else-if chain of the loop body, by the branch it takes. The names are
  those of the trace messages in the code.
\<close>

datatype branch = Staying_inside | Entering | Leaving | No_branch

definition taken_branch ::
  "('p \<Rightarrow> 'g \<Rightarrow> bool) \<Rightarrow> 'p list \<Rightarrow> 'g \<Rightarrow> 'p scan_state \<Rightarrow> ('p, 'd) turn_info \<Rightarrow> branch" where
  "taken_branch within linestring polygon st it =
     (let iit = fst (operations it);
          e = pre_mark it st
      in if is_staying_inside within it iit e (first st) linestring polygon
         then Staying_inside
         else if is_entering it iit then Entering
         else if is_leaving within it iit e (first st) linestring polygon then Leaving
         else No_branch)"

definition loop_body ::
  "('p \<Rightarrow> 'g \<Rightarrow> bool) \<Rightarrow> 'p list \<Rightarrow> 'g \<Rightarrow> 'p scan_state \<Rightarrow> ('p, 'd) turn_info
     \<Rightarrow> 'p scan_state" where
  "loop_body within linestring polygon st it =
     (let iit = fst (operations it);
          st1 = st\<lparr> entered := pre_mark it st \<rparr>;
          st2 =
            (case taken_branch within linestring polygon st it of
               Staying_inside \<Rightarrow> st1\<lparr> entered := True \<rparr>
             | Entering \<Rightarrow>
                 st1\<lparr> entered := True,
                      current_piece := append_no_duplicates (current_piece st1) (point it),
                      current_segment_id := seg_id iit \<rparr>
             | Leaving \<Rightarrow>
                 (let piece =
                        append_no_duplicates
                          (copy_segments linestring (current_segment_id st1)
                             (segment_index (seg_id iit)) (current_piece st1))
                          (point it)
                  in if piece \<noteq> []
                     then st1\<lparr> entered := False, current_piece := [],
                               out := out st1 @ [piece] \<rparr>
                     else st1\<lparr> entered := False, current_piece := piece \<rparr>)
             | No_branch \<Rightarrow> st1)
      in st2\<lparr> first := False \<rparr>)"

text \<open>The statements after the loop: the copy up to the last vertex and the last piece.\<close>

definition tail_piece :: "'p list \<Rightarrow> 'p scan_state \<Rightarrow> 'p list" where
  "tail_piece linestring st =
     (if entered st
      then copy_segments linestring (current_segment_id st)
             (int (length linestring) - 1) (current_piece st)
      else current_piece st)"

definition finish :: "'p list \<Rightarrow> 'p scan_state \<Rightarrow> 'p list list" where
  "finish linestring st =
     (let piece = tail_piece linestring st
      in if piece \<noteq> [] then out st @ [piece] else out st)"

text \<open>Everything of \<open>apply\<close> after the sort, on the turns in the order the sort left.\<close>

definition follow_scan ::
  "('p \<Rightarrow> 'g \<Rightarrow> bool) \<Rightarrow> 'p list \<Rightarrow> 'g \<Rightarrow> ('p, 'd) turn_info list \<Rightarrow> 'p list list" where
  "follow_scan within linestring polygon turns =
     finish linestring (foldl (loop_body within linestring polygon) initial_state turns)"

text \<open>
  \<open>apply\<close> itself: the call sorts \<open>turns\<close> in place and returns the pieces, so the
  result is the pair of the turn list as the call leaves it and the output. The
  parameter \<open>operation\<close> of the C++ function is not read by its body.
\<close>

definition follow_apply ::
  "('p \<Rightarrow> 'g \<Rightarrow> bool) \<Rightarrow> 'p list \<Rightarrow> 'g \<Rightarrow> operation_type \<Rightarrow> ('p, 'd::linorder) turn_info list
     \<Rightarrow> ('p, 'd) turn_info list \<times> 'p list list \<Rightarrow> bool" where
  "follow_apply within linestring polygon operation_sel turns res =
     (std_sort sort_on_segment turns (fst res)
      \<and> snd res = follow_scan within linestring polygon (fst res))"

subsection \<open>Stability, as the specification words it\<close>

text \<open>
  This predicate is not part of the code. It writes out "turns tied on identical
  (seg_id, distance) appear in the same relative order as in the input": for every
  turn of the input, the turns with its key form the same sequence before and after.
\<close>

definition ties_keep_input_order ::
  "('p, 'd) turn_info list \<Rightarrow> ('p, 'd) turn_info list \<Rightarrow> bool" where
  "ties_keep_input_order xs ys =
     list_all (\<lambda>t. filter (\<lambda>u. turn_key u = turn_key t) ys
                  = filter (\<lambda>u. turn_key u = turn_key t) xs) xs"

subsection \<open>Concrete inputs for the examples\<close>

text \<open>
  Points with integer coordinates, a turn on segment \<open>s\<close> of the linestring (source 0)
  at distance \<open>d\<close> whose second operation lies on the polygon (source 1), and the two
  constant in-polygon predicates.
\<close>

definition line_turn ::
  "int \<times> int \<Rightarrow> method_type \<Rightarrow> operation_type \<Rightarrow> int \<Rightarrow> int \<Rightarrow> (int \<times> int, int) turn_info" where
  "line_turn p m opn s d =
     \<lparr> point = p, turn_method = m,
       operations =
         (\<lparr> operation = opn,
            seg_id = \<lparr> source_index = 0, multi_index = - 1, ring_index = - 1, segment_index = s \<rparr>,
            enriched = \<lparr> distance = d \<rparr> \<rparr>,
          \<lparr> operation = operation_none,
            seg_id = \<lparr> source_index = 1, multi_index = - 1, ring_index = - 1, segment_index = 0 \<rparr>,
            enriched = \<lparr> distance = 0 \<rparr> \<rparr>) \<rparr>"

definition always_within :: "int \<times> int \<Rightarrow> unit \<Rightarrow> bool" where
  "always_within p g = True"

definition never_within :: "int \<times> int \<Rightarrow> unit \<Rightarrow> bool" where
  "never_within p g = False"

text \<open>A turn of the linestring touching at (0,5), on segment 0 at distance 1.\<close>

definition tied_turn :: "operation_type \<Rightarrow> int \<Rightarrow> (int \<times> int, int) turn_info" where
  "tied_turn opn k =
     \<lparr> point = (0, 5), turn_method = method_touch,
       operations =
         (\<lparr> operation = opn,
            seg_id = \<lparr> source_index = 0, multi_index = - 1, ring_index = - 1, segment_index = 0 \<rparr>,
            enriched = \<lparr> distance = 1 \<rparr> \<rparr>,
          \<lparr> operation = operation_none,
            seg_id = \<lparr> source_index = 1, multi_index = k, ring_index = - 1, segment_index = 0 \<rparr>,
            enriched = \<lparr> distance = 0 \<rparr> \<rparr>) \<rparr>"

text \<open>
  Seventeen turns that touch the polygon at the point (0,5), all on segment 0 of the
  linestring at distance 1, so that the comparator separates no two of them. They
  differ in the operation on the linestring and in the polygon of their second
  operation (its \<open>multi_index\<close>).

  \<open>touching_turns_sorted\<close> is the order in which the introsort of the GNU C++ library
  leaves \<open>touching_turns\<close>. For 17 elements that all compare equivalent, its median
  step exchanges positions 0 and 8, its partition then exchanges positions 1 and 16,
  2 and 15, and so on up to 8 and 9, and its final insertion sort moves nothing; 16
  elements or fewer are only insertion sorted and keep their order.
  \<open>passing_turns_sorted\<close> is that order for \<open>passing_turns\<close>, and
  \<open>passing_turns_sorted_again\<close> is \<open>passing_turns_sorted\<close> after the same exchanges
  once more.
\<close>

definition touching_turns :: "(int \<times> int, int) turn_info list" where
  "touching_turns =
     [tied_turn operation_intersection 0, tied_turn operation_none 1,
      tied_turn operation_none 2, tied_turn operation_none 3, tied_turn operation_none 4,
      tied_turn operation_none 5, tied_turn operation_none 6, tied_turn operation_none 7,
      tied_turn operation_union 8, tied_turn operation_none 9, tied_turn operation_none 10,
      tied_turn operation_none 11, tied_turn operation_none 12, tied_turn operation_none 13,
      tied_turn operation_none 14, tied_turn operation_none 15, tied_turn operation_none 16]"

definition touching_turns_sorted :: "(int \<times> int, int) turn_info list" where
  "touching_turns_sorted =
     [tied_turn operation_union 8, tied_turn operation_none 16, tied_turn operation_none 15,
      tied_turn operation_none 14, tied_turn operation_none 13, tied_turn operation_none 12,
      tied_turn operation_none 11, tied_turn operation_none 10, tied_turn operation_none 9,
      tied_turn operation_intersection 0, tied_turn operation_none 7,
      tied_turn operation_none 6, tied_turn operation_none 5, tied_turn operation_none 4,
      tied_turn operation_none 3, tied_turn operation_none 2, tied_turn operation_none 1]"

definition passing_turns :: "(int \<times> int, int) turn_info list" where
  "passing_turns =
     [tied_turn operation_intersection 0, tied_turn operation_union 1,
      tied_turn operation_none 2, tied_turn operation_none 3, tied_turn operation_none 4,
      tied_turn operation_none 5, tied_turn operation_none 6, tied_turn operation_none 7,
      tied_turn operation_none 8, tied_turn operation_none 9, tied_turn operation_none 10,
      tied_turn operation_none 11, tied_turn operation_none 12, tied_turn operation_none 13,
      tied_turn operation_none 14, tied_turn operation_none 15, tied_turn operation_none 16]"

definition passing_turns_sorted :: "(int \<times> int, int) turn_info list" where
  "passing_turns_sorted =
     [tied_turn operation_none 8, tied_turn operation_none 16, tied_turn operation_none 15,
      tied_turn operation_none 14, tied_turn operation_none 13, tied_turn operation_none 12,
      tied_turn operation_none 11, tied_turn operation_none 10, tied_turn operation_none 9,
      tied_turn operation_intersection 0, tied_turn operation_none 7,
      tied_turn operation_none 6, tied_turn operation_none 5, tied_turn operation_none 4,
      tied_turn operation_none 3, tied_turn operation_none 2, tied_turn operation_union 1]"

definition passing_turns_sorted_again :: "(int \<times> int, int) turn_info list" where
  "passing_turns_sorted_again =
     [tied_turn operation_none 9, tied_turn operation_union 1, tied_turn operation_none 2,
      tied_turn operation_none 3, tied_turn operation_none 4, tied_turn operation_none 5,
      tied_turn operation_none 6, tied_turn operation_none 7,
      tied_turn operation_intersection 0, tied_turn operation_none 8,
      tied_turn operation_none 10, tied_turn operation_none 11, tied_turn operation_none 12,
      tied_turn operation_none 13, tied_turn operation_none 14, tied_turn operation_none 15,
      tied_turn operation_none 16]"

section \<open>Properties\<close>

lemmas follow_defs =
  follow_scan_def finish_def tail_piece_def loop_body_def taken_branch_def pre_mark_def
  was_entered_def is_staying_inside_def is_entering_def is_leaving_def initial_state_def
  copy_segments_def append_no_duplicates_def

lemmas fixture_defs = line_turn_def always_within_def never_within_def

subsection \<open>The comparator as an order on keys\<close>

lemma seg_id_eq_iff:
  fixes a b :: segment_identifier
  shows "(a = b) = (source_index a = source_index b \<and> multi_index a = multi_index b
      \<and> ring_index a = ring_index b \<and> segment_index a = segment_index b)"
  by (cases a, cases b) auto

lemma seg_less_tuple:
  "seg_less a b =
     ((source_index a, multi_index a, ring_index a, segment_index a)
        < (source_index b, multi_index b, ring_index b, segment_index b))"
  by (auto simp: seg_less_def less_prod_def')

lemma sort_on_segment_key: "sort_on_segment a b = (turn_key a < turn_key b)"
  by (auto simp: sort_on_segment_def turn_key_def Let_def seg_less_tuple seg_id_eq_iff
      less_prod_def')

lemma not_sort_on_segment_key: "(\<not> sort_on_segment b a) = (turn_key a \<le> turn_key b)"
  by (simp add: sort_on_segment_key not_less)

lemma std_sort_key:
  "std_sort sort_on_segment xs ys = (mset ys = mset xs \<and> sorted (map turn_key ys))"
  by (simp add: std_sort_def not_sort_on_segment_key sorted_wrt_map)

text \<open>The sort always has a result: the call returns for every turn list.\<close>

lemma std_sort_total: "std_sort sort_on_segment xs (sort_key turn_key xs)"
  by (simp add: std_sort_key)

lemma follow_apply_total:
  "follow_apply within linestring polygon sel turns
     (sort_key turn_key turns, follow_scan within linestring polygon (sort_key turn_key turns))"
  by (simp add: follow_apply_def std_sort_total)

lemma std_sort_Nil: "std_sort cmp [] ys = (ys = [])"
  by (auto simp: std_sort_def)

lemma std_sort_unique:
  assumes "std_sort sort_on_segment xs ys" and "std_sort sort_on_segment xs zs"
    and "inj_on turn_key (set xs)"
  shows "ys = zs"
proof -
  have m: "mset ys = mset xs" "mset zs = mset xs"
    and s: "sorted (map turn_key ys)" "sorted (map turn_key zs)"
    using assms(1,2) by (simp_all add: std_sort_key)
  have "mset (map turn_key ys) = mset (map turn_key zs)"
    using m by simp
  with s have "map turn_key ys = map turn_key zs"
    by (metis properties_for_sort)
  moreover have "set ys = set xs" "set zs = set xs"
    using m by (metis set_mset_mset)+
  ultimately show ?thesis
    using assms(3) by (metis inj_on_map_eq_map sup.idem)
qed

subsection \<open>Appending\<close>

lemma append_no_duplicates_last:
  "append_no_duplicates piece p \<noteq> [] \<and> last (append_no_duplicates piece p) = p"
  by (simp add: append_no_duplicates_def)

lemma follow_scan_Nil: "follow_scan within linestring polygon [] = []"
  by (simp add: follow_scan_def finish_def tail_piece_def initial_state_def)

subsection \<open>An empty turn list\<close>

text \<open>
  C1, as the code has it. With an empty turn list the loop body never runs, \<open>entered\<close>
  stays false and the current piece stays empty: \<open>apply\<close> leaves the turn list empty
  and returns no piece, for every linestring, polygon and in-polygon predicate. The
  predicate is not consulted, so a linestring that starts inside the polygon gives no
  piece either.
\<close>

theorem follow_apply_no_turns:
  "follow_apply within linestring polygon sel [] res = (res = ([], []))"
  by (auto simp: follow_apply_def std_sort_Nil follow_scan_Nil prod_eq_iff)

theorem follow_apply_no_turns_witness:
  "follow_apply always_within [(1, 1), (2, 2), (3, 3)] () operation_intersection
     ([] :: (int \<times> int, int) turn_info list) ([], [])"
  using follow_apply_no_turns [of always_within "[(1, 1), (2, 2), (3, 3)]" "()"
      operation_intersection "([], [])"]
  by simp

text \<open>
  C1 as stated fails: for the linestring (1,1), (2,2), (3,3) with its first vertex
  inside the polygon and no turns, the one-piece output is not a result of the call.
\<close>

theorem follow_apply_no_turns_inside_counterexample:
  "always_within ([(1, 1), (2, 2), (3, 3)] ! 0) ()
   \<and> \<not> follow_apply always_within [(1, 1), (2, 2), (3, 3)] () operation_intersection
         ([] :: (int \<times> int, int) turn_info list) ([], [[(1, 1), (2, 2), (3, 3)]])"
  by (simp add: follow_apply_def follow_scan_Nil always_within_def)

subsection \<open>The leaving test\<close>

text \<open>
  C2. \<open>is_leaving\<close> holds exactly when the operation is a union and the flag
  \<open>entered\<close> it is given is set, or the method is crosses, or \<open>first\<close> is set and the
  first vertex of the linestring is within the polygon; for any other operation it is
  false. In the loop the flag it is given is \<open>entered\<close> after the pre-mark, and the
  leaving branch is taken exactly under the same condition, since a union is not
  entering and so neither of the two earlier tests of the chain holds.
\<close>

theorem is_leaving_iff:
  "is_leaving within turn op e f linestring polygon =
     (operation op = operation_union
      \<and> (e \<or> turn_method turn = method_crosses \<or> (f \<and> within (linestring ! 0) polygon)))
   \<and> (operation op \<noteq> operation_union \<longrightarrow> \<not> is_leaving within turn op e f linestring polygon)
   \<and> (taken_branch within linestring polygon st turn = Leaving) =
       (operation (fst (operations turn)) = operation_union
        \<and> (pre_mark turn st \<or> turn_method turn = method_crosses
           \<or> (first st \<and> within (linestring ! 0) polygon)))"
  by (auto simp: is_leaving_def taken_branch_def is_staying_inside_def is_entering_def Let_def)

theorem is_leaving_iff_witness:
  "is_leaving never_within (line_turn (10, 5) method_crosses operation_union 1 5)
     (fst (operations (line_turn (10, 5) method_crosses operation_union 1 5)))
     False False [(- 1, 5), (5, 5), (11, 5)] ()
   \<and> \<not> is_leaving always_within (line_turn (0, 5) method_crosses operation_intersection 0 1)
     (fst (operations (line_turn (0, 5) method_crosses operation_intersection 0 1)))
     True True [(- 1, 5), (5, 5), (11, 5)] ()"
  using is_leaving_iff [of never_within "line_turn (10, 5) method_crosses operation_union 1 5"
      "fst (operations (line_turn (10, 5) method_crosses operation_union 1 5))"
      False False "[(- 1, 5), (5, 5), (11, 5)]" "()" initial_state]
    is_leaving_iff [of always_within "line_turn (0, 5) method_crosses operation_intersection 0 1"
      "fst (operations (line_turn (0, 5) method_crosses operation_intersection 0 1))"
      True True "[(- 1, 5), (5, 5), (11, 5)]" "()" initial_state]
  by (simp add: line_turn_def)

subsection \<open>A first turn that is collinear or equal and entering\<close>

text \<open>
  C3, as the code has it. When \<open>first\<close> is set, the method is collinear or equal and
  the operation is an intersection, continue or blocked, the pre-mark sets \<open>entered\<close>;
  \<open>is_staying_inside\<close> is then called with \<open>entered\<close> true and holds, so the chain
  takes the staying-inside branch and never reaches the entering branch. The turn
  point is not appended and \<open>current_segment_id\<close> keeps its value: the only changes
  are \<open>entered\<close> set and \<open>first\<close> cleared.
\<close>

theorem first_turn_collinear_entering_stays_inside:
  assumes "first st"
    and "turn_method it = method_collinear \<or> turn_method it = method_equal"
    and "is_entering it (fst (operations it))"
  shows "pre_mark it st
    \<and> taken_branch within linestring polygon st it = Staying_inside
    \<and> loop_body within linestring polygon st it = st\<lparr> entered := True, first := False \<rparr>"
  using assms
  by (auto simp: pre_mark_def was_entered_def taken_branch_def is_staying_inside_def
      loop_body_def Let_def)

theorem first_turn_collinear_entering_stays_inside_witness:
  "loop_body never_within [(0, 0), (10, 0), (10, 10)] () initial_state
     (line_turn (10, 0) method_collinear operation_intersection 0 10)
   = initial_state\<lparr> entered := True, first := False \<rparr>"
  using first_turn_collinear_entering_stays_inside
    [of initial_state "line_turn (10, 0) method_collinear operation_intersection 0 10"
      never_within "[(0, 0), (10, 0), (10, 10)]" "()"]
  by (simp add: initial_state_def line_turn_def is_entering_def)

text \<open>
  C3 as stated fails: on the linestring (0,0), (10,0), (10,10), a first turn at (10,0)
  on segment 0 with method collinear and operation intersection is pre-marked and
  entering-like, yet the branch taken is not the entering one, the current piece is
  still empty afterwards, and the segment index of \<open>current_segment_id\<close> is still
  \<open>-1\<close>, not the turn's 0.
\<close>

theorem first_turn_collinear_entering_counterexample:
  "was_entered (line_turn (10, 0) method_collinear operation_intersection 0 10) (first initial_state)
   \<and> is_entering (line_turn (10, 0) method_collinear operation_intersection 0 10)
        (fst (operations (line_turn (10, 0) method_collinear operation_intersection 0 10)))
   \<and> taken_branch never_within [(0, 0), (10, 0), (10, 10)] () initial_state
        (line_turn (10, 0) method_collinear operation_intersection 0 10) \<noteq> Entering
   \<and> current_piece (loop_body never_within [(0, 0), (10, 0), (10, 10)] () initial_state
        (line_turn (10, 0) method_collinear operation_intersection 0 10)) = []
   \<and> segment_index (current_segment_id (loop_body never_within [(0, 0), (10, 0), (10, 10)] ()
        initial_state (line_turn (10, 0) method_collinear operation_intersection 0 10))) = - 1
   \<and> segment_index (seg_id (fst (operations
        (line_turn (10, 0) method_collinear operation_intersection 0 10)))) = 0"
  by (simp add: follow_defs fixture_defs)

subsection \<open>A leaving turn\<close>

text \<open>
  C4, as the code has it. The leaving branch copies the vertices from the anchor up to
  the turn's segment index, appends the turn point, and only then tests the piece for
  emptiness; the piece holds the turn point at least, so every leaving turn emits
  exactly one piece and clears the current piece. This is so as well when the scan
  never entered and the current piece was empty before the turn: a linestring that
  starts inside the polygon gets its first piece this way.
\<close>

theorem leaving_emits_piece:
  assumes "taken_branch within linestring polygon st it = Leaving"
  shows "out (loop_body within linestring polygon st it) =
           out st @ [append_no_duplicates
                       (copy_segments linestring (current_segment_id st)
                          (segment_index (seg_id (fst (operations it)))) (current_piece st))
                       (point it)]
    \<and> length (out (loop_body within linestring polygon st it)) = Suc (length (out st))
    \<and> current_piece (loop_body within linestring polygon st it) = []
    \<and> \<not> entered (loop_body within linestring polygon st it)"
  using assms by (simp add: loop_body_def Let_def append_no_duplicates_last)

theorem leaving_emits_piece_witness:
  "out (loop_body always_within [(5, 5), (11, 5)] () initial_state
          (line_turn (10, 5) method_crosses operation_union 0 5)) = [[(5, 5), (10, 5)]]"
proof -
  have h: "taken_branch always_within [(5, 5), (11, 5)] () initial_state
             (line_turn (10, 5) method_crosses operation_union 0 5) = Leaving"
    by (simp add: follow_defs fixture_defs)
  show ?thesis
    using leaving_emits_piece [OF h]
    by (simp add: initial_state_def line_turn_def copy_segments_def append_no_duplicates_def)
qed

text \<open>
  C4 as stated fails: the linestring (5,5), (11,5) starts inside the polygon and has one
  turn at (10,5) on segment 0, method crosses, operation union. Before the turn
  \<open>entered\<close> is false, nothing was entered, the current piece and the output are
  empty; the turn is classified leaving, and processing it emits the piece
  (5,5), (10,5).
\<close>

theorem leaving_never_entered_counterexample:
  "\<not> entered initial_state
   \<and> current_piece (initial_state :: (int \<times> int) scan_state) = []
   \<and> out (initial_state :: (int \<times> int) scan_state) = []
   \<and> taken_branch always_within [(5, 5), (11, 5)] () initial_state
        (line_turn (10, 5) method_crosses operation_union 0 5) = Leaving
   \<and> out (loop_body always_within [(5, 5), (11, 5)] () initial_state
        (line_turn (10, 5) method_crosses operation_union 0 5)) = [[(5, 5), (10, 5)]]"
  by (simp add: follow_defs fixture_defs)

subsection \<open>The sort\<close>

lemma sort_on_segment_lex:
  "sort_on_segment a b =
     (seg_less (seg_id (fst (operations a))) (seg_id (fst (operations b)))
      \<or> (seg_id (fst (operations a)) = seg_id (fst (operations b))
         \<and> distance (enriched (fst (operations a))) < distance (enriched (fst (operations b)))))"
  by (auto simp: sort_on_segment_def Let_def seg_less_def)

lemma std_sort_trans:
  "std_sort cmp xs ys \<Longrightarrow> std_sort cmp ys zs \<Longrightarrow> std_sort cmp xs zs"
  by (simp add: std_sort_def)

text \<open>
  C5, as the code has it. After the sort in \<open>apply\<close> the turn list is nondecreasing
  in (seg_id, distance): its keys are sorted in the lexicographic order, no later
  turn compares less than an earlier one under \<open>sort_on_segment\<close>, and a turn that
  compares less than another stands before it. The comparator is the lexicographic
  strict order: the seg_id is less, or the seg_ids are equal and the distance is less.
  Between two turns with the same key the comparator holds in neither direction, so
  "precedes" implies "not greater", not "less".
\<close>

theorem sorted_turns_nondecreasing:
  assumes "follow_apply within linestring polygon sel turns res"
  shows "sorted (map turn_key (fst res))
    \<and> (\<forall>i j. i < j \<and> j < length (fst res) \<longrightarrow> \<not> sort_on_segment (fst res ! j) (fst res ! i))
    \<and> (\<forall>i j. i < length (fst res) \<and> j < length (fst res)
           \<and> sort_on_segment (fst res ! i) (fst res ! j) \<longrightarrow> i < j)
    \<and> sort_on_segment a b =
        (seg_less (seg_id (fst (operations a))) (seg_id (fst (operations b)))
         \<or> (seg_id (fst (operations a)) = seg_id (fst (operations b))
            \<and> distance (enriched (fst (operations a)))
                < distance (enriched (fst (operations b)))))"
proof -
  have s: "sorted (map turn_key (fst res))"
    using assms by (simp add: follow_apply_def std_sort_key)
  have le: "turn_key (fst res ! i) \<le> turn_key (fst res ! j)"
    if "i \<le> j" "j < length (fst res)" for i j
    using s that sorted_nth_mono [of "map turn_key (fst res)" i j] by simp
  have a: "\<not> sort_on_segment (fst res ! j) (fst res ! i)"
    if "i < j" "j < length (fst res)" for i j
    using le [of i j] that by (simp add: not_sort_on_segment_key)
  have b: "i < j"
    if "i < length (fst res)" "j < length (fst res)"
      "sort_on_segment (fst res ! i) (fst res ! j)" for i j
  proof (rule ccontr)
    assume "\<not> i < j"
    then have "j \<le> i" by simp
    then have "turn_key (fst res ! j) \<le> turn_key (fst res ! i)"
      using le that(1) by simp
    then show False
      using that(3) by (simp add: sort_on_segment_key)
  qed
  from s a b sort_on_segment_lex [of a b] show ?thesis by blast
qed

theorem sorted_turns_nondecreasing_witness:
  "sorted (map turn_key
     [line_turn (0, 5) method_crosses operation_intersection 0 1,
      line_turn (10, 5) method_crosses operation_union 1 5])"
proof -
  have h: "follow_apply never_within [(- 1, 5), (5, 5), (11, 5)] () operation_intersection
     [line_turn (10, 5) method_crosses operation_union 1 5,
      line_turn (0, 5) method_crosses operation_intersection 0 1]
     ([line_turn (0, 5) method_crosses operation_intersection 0 1,
       line_turn (10, 5) method_crosses operation_union 1 5],
      follow_scan never_within [(- 1, 5), (5, 5), (11, 5)] ()
        [line_turn (0, 5) method_crosses operation_intersection 0 1,
         line_turn (10, 5) method_crosses operation_union 1 5])"
    by (simp add: follow_apply_def std_sort_def sort_on_segment_def seg_less_def line_turn_def)
  show ?thesis
    using sorted_turns_nondecreasing [OF h, THEN conjunct1] by simp
qed

text \<open>
  C5 as stated fails in its "only if": two turns at the point (0,5), both on segment 0
  at distance 1, are left by the sort with the first before the second, and the first
  does not compare less than the second.
\<close>

theorem precedes_iff_less_counterexample:
  "follow_apply never_within [(- 1, 5), (5, 5)] () operation_intersection
     [line_turn (0, 5) method_touch operation_intersection 0 1,
      line_turn (0, 5) method_touch operation_union 0 1]
     ([line_turn (0, 5) method_touch operation_intersection 0 1,
       line_turn (0, 5) method_touch operation_union 0 1], [[(0, 5)]])
   \<and> \<not> sort_on_segment (line_turn (0, 5) method_touch operation_intersection 0 1)
          (line_turn (0, 5) method_touch operation_union 0 1)"
  by (simp add: follow_apply_def std_sort_def sort_on_segment_def follow_defs fixture_defs)

subsection \<open>Turns that tie\<close>

lemma turn_key_tied: "turn_key (tied_turn opn k) = ((0, - 1, - 1, 0), 1)"
  by (simp add: turn_key_def tied_turn_def)

lemma tied_turn_eq: "(tied_turn o1 k1 = tied_turn o2 k2) = (o1 = o2 \<and> k1 = k2)"
  by (auto simp: tied_turn_def)

lemma loop_body_tied_none:
  "loop_body never_within ls () st (tied_turn operation_none k) = st\<lparr> first := False \<rparr>"
  by (simp add: loop_body_def taken_branch_def pre_mark_def was_entered_def
      is_staying_inside_def is_entering_def is_leaving_def tied_turn_def)

lemma loop_body_tied_intersection:
  "loop_body never_within ls () st (tied_turn operation_intersection k) =
     (if entered st then st\<lparr> entered := True, first := False \<rparr>
      else st\<lparr> entered := True,
              current_piece := append_no_duplicates (current_piece st) (0, 5),
              current_segment_id :=
                \<lparr> source_index = 0, multi_index = - 1, ring_index = - 1, segment_index = 0 \<rparr>,
              first := False \<rparr>)"
  by (simp add: loop_body_def taken_branch_def pre_mark_def was_entered_def
      is_staying_inside_def is_entering_def is_leaving_def tied_turn_def never_within_def)

lemma loop_body_tied_union:
  "loop_body never_within ls () st (tied_turn operation_union k) =
     (if entered st
      then st\<lparr> entered := False, current_piece := [],
               out := out st @ [append_no_duplicates
                                  (copy_segments ls (current_segment_id st) 0 (current_piece st))
                                  (0, 5)],
               first := False \<rparr>
      else st\<lparr> first := False \<rparr>)"
  by (simp add: loop_body_def taken_branch_def pre_mark_def was_entered_def
      is_staying_inside_def is_entering_def is_leaving_def tied_turn_def never_within_def
      append_no_duplicates_last Let_def)

lemmas loop_body_tied = loop_body_tied_none loop_body_tied_intersection loop_body_tied_union

lemma scan_touching_sorted:
  "follow_scan never_within [(- 1, 5), (5, 5)] () touching_turns_sorted = [[(0, 5), (5, 5)]]"
  by (simp add: touching_turns_sorted_def follow_scan_def loop_body_tied initial_state_def
      finish_def tail_piece_def copy_segments_def append_no_duplicates_def)

lemma scan_passing_sorted:
  "follow_scan never_within [(- 1, 5), (5, 5)] () passing_turns_sorted = [[(0, 5)]]"
  by (simp add: passing_turns_sorted_def follow_scan_def loop_body_tied initial_state_def
      finish_def tail_piece_def copy_segments_def append_no_duplicates_def)

lemma scan_passing_sorted_again:
  "follow_scan never_within [(- 1, 5), (5, 5)] () passing_turns_sorted_again = [[(0, 5), (5, 5)]]"
  by (simp add: passing_turns_sorted_again_def follow_scan_def loop_body_tied initial_state_def
      finish_def tail_piece_def copy_segments_def append_no_duplicates_def)

lemma sorted_touching: "sorted (map turn_key touching_turns_sorted)"
  by (simp add: touching_turns_sorted_def turn_key_tied)

lemma sorted_passing: "sorted (map turn_key passing_turns_sorted)"
  by (simp add: passing_turns_sorted_def turn_key_tied)

lemma sorted_passing_again: "sorted (map turn_key passing_turns_sorted_again)"
  by (simp add: passing_turns_sorted_again_def turn_key_tied)

lemma mset_touching: "mset touching_turns_sorted = mset touching_turns"
  by (simp add: touching_turns_def touching_turns_sorted_def)

lemma mset_passing: "mset passing_turns_sorted = mset passing_turns"
  by (simp add: passing_turns_def passing_turns_sorted_def)

lemma mset_passing_again: "mset passing_turns_sorted_again = mset passing_turns_sorted"
  by (simp add: passing_turns_sorted_def passing_turns_sorted_again_def)

lemma follow_apply_touching:
  "follow_apply never_within [(- 1, 5), (5, 5)] () operation_intersection
     touching_turns (touching_turns_sorted, [[(0, 5), (5, 5)]])"
  by (simp add: follow_apply_def std_sort_key mset_touching sorted_touching scan_touching_sorted)

lemma ties_keep_input_order_inj:
  assumes "mset ys = mset xs" and "inj_on turn_key (set xs)"
  shows "ties_keep_input_order xs ys"
proof -
  have sets: "set ys = set xs"
    using assms(1) by (metis set_mset_mset)
  have same: "filter (\<lambda>u. turn_key u = turn_key t) zs = filter ((=) t) zs"
    if "t \<in> set xs" "set zs = set xs" for t zs
    by (rule filter_cong) (use assms(2) that in \<open>auto dest: inj_onD\<close>)
  have "filter ((=) t) ys = filter ((=) t) xs" for t
    using assms(1) by (metis replicate_count_mset_eq_filter_eq)
  with same sets show ?thesis
    by (simp add: ties_keep_input_order_def list_all_iff)
qed

text \<open>
  C6, as the code has it. The sort is \<open>std::sort\<close>, which does not keep the input
  order of turns that tie. What holds of tied turns after the sort: for every key, the
  turns with that key are the same turns as in the input, as a multiset; they stand
  together, since a turn between two turns of one key has that key; and their input
  order is kept where it cannot be told apart, that is when no two different turns
  of the list have the same key.
\<close>

theorem sort_keeps_tied_turns_together:
  assumes "follow_apply within linestring polygon sel turns res"
  shows "mset (filter (\<lambda>u. turn_key u = k) (fst res)) = mset (filter (\<lambda>u. turn_key u = k) turns)
    \<and> (\<forall>i j l. i \<le> j \<and> j \<le> l \<and> l < length (fst res)
           \<and> turn_key (fst res ! i) = turn_key (fst res ! l)
          \<longrightarrow> turn_key (fst res ! j) = turn_key (fst res ! i))
    \<and> (inj_on turn_key (set turns) \<longrightarrow> ties_keep_input_order turns (fst res))"
proof -
  have m: "mset (fst res) = mset turns" and s: "sorted (map turn_key (fst res))"
    using assms by (simp_all add: follow_apply_def std_sort_key)
  have le: "turn_key (fst res ! i) \<le> turn_key (fst res ! j)"
    if "i \<le> j" "j < length (fst res)" for i j
    using s that sorted_nth_mono [of "map turn_key (fst res)" i j] by simp
  have block: "turn_key (fst res ! j) = turn_key (fst res ! i)"
    if "i \<le> j" "j \<le> l" "l < length (fst res)"
      "turn_key (fst res ! i) = turn_key (fst res ! l)" for i j l
  proof (rule antisym)
    show "turn_key (fst res ! j) \<le> turn_key (fst res ! i)"
      using le [of j l] that by simp
    show "turn_key (fst res ! i) \<le> turn_key (fst res ! j)"
      using le [of i j] that by simp
  qed
  have "mset (filter (\<lambda>u. turn_key u = k) (fst res)) = mset (filter (\<lambda>u. turn_key u = k) turns)"
    using m by simp
  moreover have "inj_on turn_key (set turns) \<longrightarrow> ties_keep_input_order turns (fst res)"
    using m by (simp add: ties_keep_input_order_inj)
  ultimately show ?thesis
    using block by blast
qed

theorem sort_keeps_tied_turns_together_witness:
  "inj_on turn_key
     (set [line_turn (10, 5) method_crosses operation_union 1 5,
           line_turn (0, 5) method_crosses operation_intersection 0 1])
   \<and> ties_keep_input_order
       [line_turn (10, 5) method_crosses operation_union 1 5,
        line_turn (0, 5) method_crosses operation_intersection 0 1]
       [line_turn (0, 5) method_crosses operation_intersection 0 1,
        line_turn (10, 5) method_crosses operation_union 1 5]
   \<and> mset (filter (\<lambda>u. turn_key u = ((0, - 1, - 1, 0), 1)) touching_turns_sorted)
     = mset (filter (\<lambda>u. turn_key u = ((0, - 1, - 1, 0), 1)) touching_turns)"
proof -
  have i: "inj_on turn_key
     (set [line_turn (10, 5) method_crosses operation_union 1 5,
           line_turn (0, 5) method_crosses operation_intersection 0 1])"
    by (simp add: turn_key_def line_turn_def)
  have h: "follow_apply never_within [(- 1, 5), (5, 5), (11, 5)] () operation_intersection
     [line_turn (10, 5) method_crosses operation_union 1 5,
      line_turn (0, 5) method_crosses operation_intersection 0 1]
     ([line_turn (0, 5) method_crosses operation_intersection 0 1,
       line_turn (10, 5) method_crosses operation_union 1 5],
      follow_scan never_within [(- 1, 5), (5, 5), (11, 5)] ()
        [line_turn (0, 5) method_crosses operation_intersection 0 1,
         line_turn (10, 5) method_crosses operation_union 1 5])"
    by (simp add: follow_apply_def std_sort_def sort_on_segment_def seg_less_def line_turn_def)
  show ?thesis
    using sort_keeps_tied_turns_together [OF h] i
      sort_keeps_tied_turns_together [OF follow_apply_touching, of "((0, - 1, - 1, 0), 1)"]
    by simp
qed

text \<open>
  C6 as stated fails: of the seventeen tied turns of \<open>touching_turns\<close>, the entering
  one comes first and the leaving one ninth in the input; the sort leaves the leaving
  one first and the entering one tenth, and the scan then gives the piece (0,5), (5,5).
\<close>

theorem sort_not_stable_counterexample:
  "follow_apply never_within [(- 1, 5), (5, 5)] () operation_intersection
     touching_turns (touching_turns_sorted, [[(0, 5), (5, 5)]])
   \<and> \<not> ties_keep_input_order touching_turns touching_turns_sorted"
proof -
  have "\<not> ties_keep_input_order touching_turns touching_turns_sorted"
    by (simp add: ties_keep_input_order_def touching_turns_def touching_turns_sorted_def
        turn_key_tied tied_turn_eq)
  then show ?thesis
    by (simp add: follow_apply_def std_sort_key mset_touching sorted_touching scan_touching_sorted)
qed

subsection \<open>Running \<open>apply\<close> again on the sorted turns\<close>

text \<open>
  C9, as the code has it. When no two different turns of the list have the same
  (seg_id, distance), a second run on the turn list the first run left leaves that
  list as it is and returns the output of the first run: the sorted order is then
  unique. With tied turns the second sort may leave them in another order, and the
  output may differ.
\<close>

theorem second_run_same_output:
  assumes "follow_apply within linestring polygon sel turns r1"
    and "follow_apply within linestring polygon sel (fst r1) r2"
    and "inj_on turn_key (set turns)"
  shows "fst r2 = fst r1 \<and> snd r2 = snd r1"
proof -
  have s1: "std_sort sort_on_segment turns (fst r1)"
    using assms(1) by (simp add: follow_apply_def)
  have "std_sort sort_on_segment (fst r1) (fst r2)"
    using assms(2) by (simp add: follow_apply_def)
  with s1 have s2: "std_sort sort_on_segment turns (fst r2)"
    by (rule std_sort_trans)
  have "fst r2 = fst r1"
    using s2 s1 assms(3) by (rule std_sort_unique)
  moreover have "snd r1 = follow_scan within linestring polygon (fst r1)"
    "snd r2 = follow_scan within linestring polygon (fst r2)"
    using assms(1,2) by (simp_all add: follow_apply_def)
  ultimately show ?thesis
    by simp
qed

theorem second_run_same_output_witness:
  "inj_on turn_key
     (set [line_turn (10, 5) method_crosses operation_union 1 5,
           line_turn (0, 5) method_crosses operation_intersection 0 1])
   \<and> follow_apply never_within [(- 1, 5), (5, 5), (11, 5)] () operation_intersection
     [line_turn (10, 5) method_crosses operation_union 1 5,
      line_turn (0, 5) method_crosses operation_intersection 0 1]
     ([line_turn (0, 5) method_crosses operation_intersection 0 1,
       line_turn (10, 5) method_crosses operation_union 1 5], [[(0, 5), (5, 5), (10, 5)]])
   \<and> follow_scan never_within [(- 1, 5), (5, 5), (11, 5)] ()
       (sort_key turn_key
          [line_turn (0, 5) method_crosses operation_intersection 0 1,
           line_turn (10, 5) method_crosses operation_union 1 5])
     = [[(0, 5), (5, 5), (10, 5)]]"
proof -
  have i: "inj_on turn_key
     (set [line_turn (10, 5) method_crosses operation_union 1 5,
           line_turn (0, 5) method_crosses operation_intersection 0 1])"
    by (simp add: turn_key_def line_turn_def)
  have h: "follow_apply never_within [(- 1, 5), (5, 5), (11, 5)] () operation_intersection
     [line_turn (10, 5) method_crosses operation_union 1 5,
      line_turn (0, 5) method_crosses operation_intersection 0 1]
     ([line_turn (0, 5) method_crosses operation_intersection 0 1,
       line_turn (10, 5) method_crosses operation_union 1 5], [[(0, 5), (5, 5), (10, 5)]])"
    by (simp add: follow_apply_def std_sort_def sort_on_segment_def seg_less_def
        follow_defs fixture_defs)
  have h2: "follow_apply never_within [(- 1, 5), (5, 5), (11, 5)] () operation_intersection
     (fst ([line_turn (0, 5) method_crosses operation_intersection 0 1,
            line_turn (10, 5) method_crosses operation_union 1 5], [[(0, 5), (5, 5), (10 :: int, 5 :: int)]]))
     (sort_key turn_key
        [line_turn (0, 5) method_crosses operation_intersection 0 1,
         line_turn (10, 5) method_crosses operation_union 1 5],
      follow_scan never_within [(- 1, 5), (5, 5), (11, 5)] ()
        (sort_key turn_key
           [line_turn (0, 5) method_crosses operation_intersection 0 1,
            line_turn (10, 5) method_crosses operation_union 1 5]))"
    unfolding fst_conv by (rule follow_apply_total)
  have "snd (sort_key turn_key
        [line_turn (0, 5) method_crosses operation_intersection 0 1,
         line_turn (10, 5) method_crosses operation_union 1 5],
      follow_scan never_within [(- 1, 5), (5, 5), (11, 5)] ()
        (sort_key turn_key
           [line_turn (0, 5) method_crosses operation_intersection 0 1,
            line_turn (10, 5) method_crosses operation_union 1 5]))
     = snd ([line_turn (0, 5) method_crosses operation_intersection 0 1,
            line_turn (10, 5) method_crosses operation_union 1 5], [[(0, 5), (5, 5), (10 :: int, 5 :: int)]])"
    using second_run_same_output [OF h h2 i] by (rule conjunct2)
  then show ?thesis
    using i h by (simp only: snd_conv simp_thms)
qed

text \<open>
  C9 as stated fails: a first run on the seventeen tied turns of \<open>passing_turns\<close>
  leaves the entering turn before the leaving one and returns the piece (0,5); a second
  run on the list so left puts the leaving turn before the entering one and returns
  the piece (0,5), (5,5).
\<close>

theorem second_run_differs_counterexample:
  "follow_apply never_within [(- 1, 5), (5, 5)] () operation_intersection
     passing_turns (passing_turns_sorted, [[(0, 5)]])
   \<and> follow_apply never_within [(- 1, 5), (5, 5)] () operation_intersection
     passing_turns_sorted (passing_turns_sorted_again, [[(0, 5), (5, 5)]])
   \<and> passing_turns_sorted_again \<noteq> passing_turns_sorted
   \<and> [[(0, 5)]] \<noteq> [[(0, 5), (5 :: int, 5 :: int)]]"
proof -
  have "passing_turns_sorted_again \<noteq> passing_turns_sorted"
    by (simp add: passing_turns_sorted_def passing_turns_sorted_again_def tied_turn_eq)
  then show ?thesis
    by (simp add: follow_apply_def std_sort_key mset_passing mset_passing_again sorted_passing
        sorted_passing_again scan_passing_sorted scan_passing_sorted_again)
qed

subsection \<open>The flush after the loop\<close>

lemma upto_in_range_filter:
  assumes "0 \<le> a" and "b < n"
  shows "filter (\<lambda>i. 0 \<le> i \<and> i < n) [a .. b] = [a .. b]"
  using assms by (auto simp: filter_id_conv)

lemma map_nth_upto_drop:
  "map (\<lambda>i. ls ! nat i) [int k .. int (length ls) - 1] = drop k ls"
proof (rule nth_equalityI)
  show "length (map (\<lambda>i. ls ! nat i) [int k .. int (length ls) - 1]) = length (drop k ls)"
    by simp
next
  fix i
  assume "i < length (map (\<lambda>i. ls ! nat i) [int k .. int (length ls) - 1])"
  then have i: "k + i < length ls" by simp
  then have "[int k .. int (length ls) - 1] ! i = int k + int i"
    by (simp add: nth_upto)
  with i show "map (\<lambda>i. ls ! nat i) [int k .. int (length ls) - 1] ! i = drop k ls ! i"
    by (simp add: nat_add_distrib)
qed

lemma copy_segments_to_last:
  assumes "- 1 \<le> segment_index sid"
  shows "copy_segments ls sid (int (length ls) - 1) piece =
           foldl append_no_duplicates piece (drop (nat (segment_index sid + 1)) ls)"
proof -
  have "0 \<le> segment_index sid + 1" using assms by simp
  then have "filter (\<lambda>i. 0 \<le> i \<and> i < int (length ls))
               [segment_index sid + 1 .. int (length ls) - 1]
             = [int (nat (segment_index sid + 1)) .. int (length ls) - 1]"
    by (simp add: upto_in_range_filter)
  then show ?thesis
    by (simp only: copy_segments_def map_nth_upto_drop)
qed

text \<open>
  C7. After the loop, with \<open>st\<close> the state the last turn left: if \<open>entered\<close> is set,
  \<open>copy_segments\<close> appends to the current piece the vertices from the anchor
  \<open>current_segment_id\<close> up to the index of the last vertex; the piece is then emitted
  exactly when it is not empty, whether \<open>entered\<close> is set or not. For an anchor with
  segment index at least \<open>-1\<close> the vertices copied are all those from index
  \<open>segment_index + 1\<close> on, the last vertex included.
\<close>

theorem tail_flush:
  "follow_scan within linestring polygon turns =
     (let st = foldl (loop_body within linestring polygon) initial_state turns;
          piece = (if entered st
                   then copy_segments linestring (current_segment_id st)
                          (int (length linestring) - 1) (current_piece st)
                   else current_piece st)
      in if piece \<noteq> [] then out st @ [piece] else out st)
   \<and> (- 1 \<le> segment_index sid \<longrightarrow>
        copy_segments linestring sid (int (length linestring) - 1) piece0 =
          foldl append_no_duplicates piece0 (drop (nat (segment_index sid + 1)) linestring))"
  by (simp add: follow_scan_def finish_def tail_piece_def Let_def copy_segments_to_last)

theorem tail_flush_witness:
  "follow_scan never_within [(- 1, 5), (5, 5), (7, 5)] ()
     [line_turn (0, 5) method_crosses operation_intersection 0 1] = [[(0, 5), (5, 5), (7, 5)]]"
  using tail_flush [of never_within "[(- 1, 5), (5, 5), (7, 5)]" "()"
      "[line_turn (0, 5) method_crosses operation_intersection 0 1]"
      "seg_id (fst (operations (line_turn (0, 5) method_crosses operation_intersection 0 1)))"
      "[(0, 5)]"]
  by (simp add: loop_body_def taken_branch_def pre_mark_def
  was_entered_def is_staying_inside_def is_entering_def is_leaving_def initial_state_def
   append_no_duplicates_def line_turn_def)

subsection \<open>Where the in-polygon predicate can matter\<close>

lemma loop_body_first: "\<not> first (loop_body within linestring polygon st it)"
  by (simp add: loop_body_def Let_def)

lemma taken_branch_indep:
  assumes "turn_method it = method_crosses \<or> \<not> first st"
  shows "taken_branch w1 linestring p1 st it = taken_branch w2 linestring p2 st it"
  using assms
  by (auto simp: taken_branch_def is_staying_inside_def is_leaving_def Let_def)

lemma loop_body_indep:
  assumes "turn_method it = method_crosses \<or> \<not> first st"
  shows "loop_body w1 linestring p1 st it = loop_body w2 linestring p2 st it"
  by (simp add: loop_body_def taken_branch_indep [OF assms, of w1 linestring p1 w2 p2])

lemma foldl_loop_body_indep:
  "\<not> first st \<Longrightarrow>
     foldl (loop_body w1 linestring p1) st ts = foldl (loop_body w2 linestring p2) st ts"
proof (induction ts arbitrary: st)
  case Nil
  show ?case by simp
next
  case (Cons t ts)
  have "loop_body w1 linestring p1 st t = loop_body w2 linestring p2 st t"
    using Cons.prems by (simp add: loop_body_indep)
  moreover have "\<not> first (loop_body w2 linestring p2 st t)"
    by (rule loop_body_first)
  ultimately show ?case
    using Cons.IH by simp
qed

text \<open>
  C8. For a turn whose method is crosses, and for any turn when \<open>first\<close> is not set,
  the branch taken and the state after the loop body are the same for any two
  in-polygon predicates and polygons: the predicate is not consulted. \<open>first\<close> is
  cleared by every loop body, so the output of the whole scan does not depend on the
  predicate when the turn list is empty or its first turn has method crosses.
\<close>

theorem within_only_consulted_first_non_crosses:
  "(turn_method it = method_crosses \<or> \<not> first st \<longrightarrow>
      taken_branch w1 linestring p1 st it = taken_branch w2 linestring p2 st it
      \<and> loop_body w1 linestring p1 st it = loop_body w2 linestring p2 st it)
   \<and> (turns = [] \<or> turn_method (hd turns) = method_crosses \<longrightarrow>
      follow_scan w1 linestring p1 turns = follow_scan w2 linestring p2 turns)"
proof (intro conjI impI)
  assume h: "turn_method it = method_crosses \<or> \<not> first st"
  show "taken_branch w1 linestring p1 st it = taken_branch w2 linestring p2 st it"
    by (rule taken_branch_indep [OF h])
  show "loop_body w1 linestring p1 st it = loop_body w2 linestring p2 st it"
    by (rule loop_body_indep [OF h])
next
  assume h: "turns = [] \<or> turn_method (hd turns) = method_crosses"
  show "follow_scan w1 linestring p1 turns = follow_scan w2 linestring p2 turns"
  proof (cases turns)
    case Nil
    then show ?thesis by (simp add: follow_scan_Nil)
  next
    case (Cons t ts)
    with h have c: "turn_method t = method_crosses" by simp
    have "loop_body w1 linestring p1 initial_state t = loop_body w2 linestring p2 initial_state t"
      using c by (simp add: loop_body_indep)
    moreover have "\<not> first (loop_body w2 linestring p2 initial_state t)"
      by (rule loop_body_first)
    ultimately show ?thesis
      using Cons foldl_loop_body_indep [of "loop_body w2 linestring p2 initial_state t" w1 linestring p1 ts w2 p2]
      by (simp add: follow_scan_def)
  qed
qed

theorem within_only_consulted_first_non_crosses_witness:
  "follow_scan always_within [(- 1, 5), (5, 5), (11, 5)] ()
     [line_turn (0, 5) method_crosses operation_intersection 0 1,
      line_turn (10, 5) method_crosses operation_union 1 5]
   = follow_scan never_within [(- 1, 5), (5, 5), (11, 5)] ()
     [line_turn (0, 5) method_crosses operation_intersection 0 1,
      line_turn (10, 5) method_crosses operation_union 1 5]
   \<and> loop_body always_within [(- 1, 5), (5, 5), (11, 5)] () initial_state
        (line_turn (0, 5) method_crosses operation_intersection 0 1)
     = loop_body never_within [(- 1, 5), (5, 5), (11, 5)] () initial_state
        (line_turn (0, 5) method_crosses operation_intersection 0 1)"
  using within_only_consulted_first_non_crosses
    [of "line_turn (0, 5) method_crosses operation_intersection 0 1" initial_state
      always_within "[(- 1, 5), (5, 5), (11, 5)]" "()" never_within "()"
      "[line_turn (0, 5) method_crosses operation_intersection 0 1,
        line_turn (10, 5) method_crosses operation_union 1 5]"]
  by (simp add: line_turn_def)

subsection \<open>Emitted pieces are not empty\<close>

lemma loop_body_out_nonempty:
  assumes "\<forall>p \<in> set (out st). p \<noteq> []"
  shows "\<forall>p \<in> set (out (loop_body within linestring polygon st it)). p \<noteq> []"
  using assms
  by (cases "taken_branch within linestring polygon st it")
     (auto simp: loop_body_def Let_def append_no_duplicates_last)

lemma foldl_out_nonempty:
  "\<forall>p \<in> set (out st). p \<noteq> [] \<Longrightarrow>
     \<forall>p \<in> set (out (foldl (loop_body within linestring polygon) st ts)). p \<noteq> []"
proof (induction ts arbitrary: st)
  case Nil
  then show ?case by simp
next
  case (Cons t ts)
  have "\<forall>p \<in> set (out (loop_body within linestring polygon st t)). p \<noteq> []"
    by (rule loop_body_out_nonempty [OF Cons.prems])
  then show ?case
    using Cons.IH by simp
qed

lemma follow_scan_nonempty:
  "\<forall>piece \<in> set (follow_scan within linestring polygon ts). piece \<noteq> []"
proof -
  have "\<forall>p \<in> set (out (foldl (loop_body within linestring polygon) initial_state ts)). p \<noteq> []"
    by (rule foldl_out_nonempty) (simp add: initial_state_def)
  then show ?thesis
    by (auto simp: follow_scan_def finish_def Let_def)
qed

text \<open>
  C10. Every piece of the output is non-empty, for the scan on any turn list and so for
  every result of \<open>apply\<close>; and a leaving turn adds exactly one piece to the output,
  which is non-empty and ends with the point of that turn.
\<close>

theorem emitted_pieces_nonempty:
  "(\<forall>piece \<in> set (follow_scan within linestring polygon ts). piece \<noteq> [])
   \<and> (follow_apply within linestring polygon sel ts res \<longrightarrow>
        (\<forall>piece \<in> set (snd res). piece \<noteq> []))
   \<and> (taken_branch within linestring polygon st it = Leaving \<longrightarrow>
        (\<exists>piece. out (loop_body within linestring polygon st it) = out st @ [piece]
           \<and> piece \<noteq> [] \<and> last piece = point it))"
  by (simp add: follow_scan_nonempty follow_apply_def loop_body_def Let_def
      append_no_duplicates_last)

theorem emitted_pieces_nonempty_witness:
  "[] \<notin> set (follow_scan always_within [(5, 5), (11, 5)] ()
                 [line_turn (10, 5) method_crosses operation_union 0 5])
   \<and> last (last (out (loop_body always_within [(5, 5), (11, 5)] () initial_state
                      (line_turn (10, 5) method_crosses operation_union 0 5)))) = (10, 5)"
proof -
  have h: "taken_branch always_within [(5, 5), (11, 5)] () initial_state
             (line_turn (10, 5) method_crosses operation_union 0 5) = Leaving"
    by (simp add: follow_defs fixture_defs)
  have t: "(\<forall>piece \<in> set (follow_scan always_within [(5, 5), (11, 5)] ()
                 [line_turn (10, 5) method_crosses operation_union 0 5]). piece \<noteq> [])
     \<and> (\<exists>piece. out (loop_body always_within [(5, 5), (11, 5)] () initial_state
                        (line_turn (10, 5) method_crosses operation_union 0 5))
                  = out (initial_state :: (int \<times> int) scan_state) @ [piece]
           \<and> piece \<noteq> []
           \<and> last piece = point (line_turn (10, 5) method_crosses operation_union 0 5))"
    using h emitted_pieces_nonempty
      [of always_within "[(5, 5), (11, 5)]" "()"
        "[line_turn (10, 5) method_crosses operation_union 0 5]"
        operation_intersection "([], [])" initial_state
        "line_turn (10, 5) method_crosses operation_union 0 5"]
    by blast
  then obtain piece where
    "out (loop_body always_within [(5, 5), (11, 5)] () initial_state
            (line_turn (10, 5) method_crosses operation_union 0 5))
       = out (initial_state :: (int \<times> int) scan_state) @ [piece]"
    and "last piece = point (line_turn (10, 5) method_crosses operation_union 0 5)"
    by blast
  with t show ?thesis
    by (auto simp: line_turn_def)
qed

end
